theory Spec2Isabelle
  imports Complex_Main
begin

section \<open>JavaScript values\<close>

text \<open>
  The request bodies and the classification service's replies are JSON documents; the
  handlers read them with property access, truthiness tests and \<^verbatim>\<open>||\<close>.
  \<open>JUndefined\<close> is the value of a property that is absent. An object is the list of its own
  properties in enumeration order, each key once. Numbers are only copied and tested
  against zero, never computed with, so \<open>real\<close> stands for the doubles.
\<close>

datatype json =
    JUndefined
  | JNull
  | JBool bool
  | JNum real
  | JStr string
  | JArr "json list"
  | JObj "(string \<times> json) list"

fun truthy :: "json \<Rightarrow> bool" where
  "truthy JUndefined = False"
| "truthy JNull = False"
| "truthy (JBool b) = b"
| "truthy (JNum n) = (n \<noteq> 0)"
| "truthy (JStr s) = (s \<noteq> [])"
| "truthy (JArr xs) = True"
| "truthy (JObj kvs) = True"

text \<open>\<^verbatim>\<open>a || b\<close>\<close>

definition js_or :: "json \<Rightarrow> json \<Rightarrow> json" where
  "js_or a b = (if truthy a then a else b)"

text \<open>
  A thrown JavaScript error, with the three properties the handlers look at:
  \<^verbatim>\<open>e.message\<close>, \<^verbatim>\<open>error.code\<close> and \<^verbatim>\<open>error.response\<close> (for an
  HTTP client error that carries a reply, the reply's \<^verbatim>\<open>data\<close>).
\<close>

record js_error =
  message :: string
  code :: "string option"
  response_data :: "json option"

definition plain_error :: "string \<Rightarrow> js_error" where
  "plain_error m = \<lparr>message = m, code = None, response_data = None\<rparr>"

definition type_error :: js_error where
  "type_error = plain_error ''Cannot read properties of undefined''"

text \<open>
  \<^verbatim>\<open>v.k\<close>: a TypeError on \<^verbatim>\<open>undefined\<close> and \<^verbatim>\<open>null\<close>, the property or
  \<^verbatim>\<open>undefined\<close> on an object, \<^verbatim>\<open>undefined\<close> on the other values (none of the
  property names the handlers read is a prototype property of a string, number, boolean
  or array).
\<close>

fun get_field :: "json \<Rightarrow> string \<Rightarrow> js_error + json" where
  "get_field JUndefined k = Inl type_error"
| "get_field JNull k = Inl type_error"
| "get_field (JObj kvs) k = Inr (case map_of kvs k of None \<Rightarrow> JUndefined | Some v \<Rightarrow> v)"
| "get_field (JBool b) k = Inr JUndefined"
| "get_field (JNum n) k = Inr JUndefined"
| "get_field (JStr s) k = Inr JUndefined"
| "get_field (JArr xs) k = Inr JUndefined"

text \<open>\<^verbatim>\<open>v?.k\<close>\<close>

fun get_field_opt :: "json \<Rightarrow> string \<Rightarrow> json" where
  "get_field_opt (JObj kvs) k = (case map_of kvs k of None \<Rightarrow> JUndefined | Some v \<Rightarrow> v)"
| "get_field_opt v k = JUndefined"

section \<open>Strings: split, join and decimal numerals\<close>

text \<open>\<^verbatim>\<open>s.split(c)\<close> for a one-character separator: empty fields are kept.\<close>

fun split_on :: "char \<Rightarrow> string \<Rightarrow> string list" where
  "split_on c [] = [[]]"
| "split_on c (x # xs) =
     (if x = c then [] # split_on c xs
      else (case split_on c xs of
              [] \<Rightarrow> [[x]]
            | w # ws \<Rightarrow> (x # w) # ws))"

fun join :: "char \<Rightarrow> string list \<Rightarrow> string" where
  "join c [] = []"
| "join c [w] = w"
| "join c (w # v # ws) = w @ c # join c (v # ws)"

text \<open>\<^verbatim>\<open>xs[i]\<close> on an array: \<^verbatim>\<open>undefined\<close> out of range.\<close>

definition js_index :: "'a list \<Rightarrow> nat \<Rightarrow> 'a option" where
  "js_index xs i = (if i < length xs then Some (xs ! i) else None)"

definition digit_char :: "nat \<Rightarrow> char" where
  "digit_char d = char_of (48 + d)"

fun dec :: "nat \<Rightarrow> string" where
  "dec n = (if n < 10 then [digit_char n] else dec (n div 10) @ [digit_char (n mod 10)])"

declare dec.simps [simp del]

definition digit_val :: "char \<Rightarrow> nat option" where
  "digit_val c = (let k = (of_char c :: nat) in if 48 \<le> k \<and> k \<le> 57 then Some (k - 48) else None)"

fun parse_digits :: "nat \<Rightarrow> string \<Rightarrow> nat option" where
  "parse_digits acc [] = Some acc"
| "parse_digits acc (c # cs) =
     (case digit_val c of None \<Rightarrow> None | Some d \<Rightarrow> parse_digits (10 * acc + d) cs)"

definition parse_dec :: "string \<Rightarrow> nat option" where
  "parse_dec s = (if s = [] then None else parse_digits 0 s)"

section \<open>Signed tokens\<close>

text \<open>
  The token library is an external collaborator. Its model keeps what the handlers rely
  on: \<^verbatim>\<open>jwt.sign({ id }, secret, { expiresIn })\<close> issues the text of a payload
  (\<open>id\<close>, the issue time \<open>iat\<close> in seconds, \<open>exp = iat + expiresIn\<close>) followed by a
  keyed digest of that text; \<^verbatim>\<open>jwt.verify(token, secret)\<close> throws on a text that does
  not parse, on a digest that is not the one of the payload text under \<open>secret\<close>, and on a
  clock that has reached \<open>exp\<close>, and returns the payload otherwise. Both throw when the
  secret is missing or empty. The digest function is a parameter.
\<close>

record jwt_payload =
  payload_id :: nat
  iat :: nat
  exp :: nat

definition dot :: char where
  "dot = CHR ''.''"

definition jwt_sign ::
  "(string \<Rightarrow> string \<Rightarrow> string) \<Rightarrow> nat \<Rightarrow> string option \<Rightarrow> nat \<Rightarrow> nat \<Rightarrow> js_error + string" where
  "jwt_sign mac uid secret expiresIn now =
     (case secret of
        None \<Rightarrow> Inl (plain_error ''secretOrPrivateKey must have a value'')
      | Some k \<Rightarrow>
          if k = [] then Inl (plain_error ''secretOrPrivateKey must have a value'')
          else let text = join dot [dec uid, dec now, dec (now + expiresIn)]
               in Inr (text @ dot # mac k text))"

definition jwt_verify ::
  "(string \<Rightarrow> string \<Rightarrow> string) \<Rightarrow> string \<Rightarrow> string option \<Rightarrow> nat \<Rightarrow> js_error + jwt_payload" where
  "jwt_verify mac token secret now =
     (case secret of
        None \<Rightarrow> Inl (plain_error ''secret or public key must be provided'')
      | Some k \<Rightarrow>
          if k = [] then Inl (plain_error ''secret or public key must be provided'')
          else (case split_on dot token of
                  a # b # c # d # ds \<Rightarrow>
                    (case (parse_dec a, parse_dec b, parse_dec c) of
                       (Some uid, Some i, Some e) \<Rightarrow>
                         if join dot (d # ds) \<noteq> mac k (join dot [a, b, c])
                         then Inl (plain_error ''invalid signature'')
                         else if e \<le> now then Inl (plain_error ''jwt expired'')
                         else Inr \<lparr>payload_id = uid, iat = i, exp = e\<rparr>
                     | _ \<Rightarrow> Inl (plain_error ''jwt malformed''))
                | _ \<Rightarrow> Inl (plain_error ''jwt malformed'')))"

section \<open>Data model\<close>

text \<open>
  The two stored collections (\<^verbatim>\<open>userSchema\<close>, \<^verbatim>\<open>documentSchema\<close>). Object ids are
  natural numbers, written in decimal where they travel as text. The analysis fields of a
  document hold JavaScript values. An assignment to a path of a stored document type goes
  through the cast of the path's schema type (see \<open>schema_cast\<close> below). The ids and
  version keys that the store adds to documents' parts are not part of the model.
\<close>

record user =
  user_id :: nat
  firstName :: string
  lastName :: string
  email :: string
  password :: string

datatype status = Uploaded | Processing | Analyzed | Error

record jargon_info =
  meaning :: json
  occurrences :: json
  originalTerm :: json

record jargon_analysis =
  jargonsFound :: "(string \<times> jargon_info) list"
  simplifiedText :: json
  totalJargons :: json
  jargonSummary :: json
  complexityAnalysis :: json

record document =
  doc_id :: nat
  userId :: nat
  fileName :: string
  uploadDate :: nat
  status :: status
  classification :: json
  confidence :: json
  keyTerms :: json
  summary :: json
  importantDates :: json
  partiesInvolved :: json
  jargonAnalysis :: jargon_analysis

text \<open>
  The state the handlers act on: the two collections, the files in the upload directory,
  and a journal of every document write that succeeded, in order (the journal is not
  program state: it records the history the statements about status transitions need).
\<close>

record state =
  users :: "user list"
  documents :: "document list"
  files :: "string set"
  journal :: "document list"

text \<open>
  The schema types of the paths that the upload handler assigns from the reply
  (\<^verbatim>\<open>documentSchema\<close>, lines 32 to 77): \<^verbatim>\<open>String\<close>, \<^verbatim>\<open>Number\<close>, an array of
  \<^verbatim>\<open>String\<close>, the array of \<^verbatim>\<open>{ type, date }\<close> of \<^verbatim>\<open>importantDates\<close>, and the nested
  object of \<^verbatim>\<open>complexityAnalysis\<close>.
\<close>

datatype schema_type = SString | SNumber | SStrings | SDates | SComplexity

text \<open>
  What a request meets outside the handler code: the configuration, the libraries, the
  clock (in seconds), and the outcome of every call that can fail. For a call that
  returns nothing, \<open>None\<close> is success and \<open>Some err\<close> the error thrown.
  \<^item> \<open>user_query\<close>: \<^verbatim>\<open>User.findOne\<close> and \<^verbatim>\<open>User.findById\<close>; \<open>user_create\<close>:
    \<^verbatim>\<open>User.create\<close>; \<open>document_query\<close>: \<^verbatim>\<open>Document.find\<close> and \<^verbatim>\<open>Document.findOne\<close>.
  \<^item> In the upload handler, in the order of the code: \<open>create_save\<close> is the save of the
    new record (line 195), \<open>classify_reply\<close> the classification call (line 205: the error
    thrown, or the reply's \<^verbatim>\<open>data\<close>), \<open>analyzed_save\<close> the save of line 251,
    \<open>unlink_fault\<close> the file deletion of line 254, \<open>error_save\<close> the save in the
    \<^verbatim>\<open>catch\<close> block (line 270), \<open>cleanup_fault\<close> the file deletion of line 275.
    \<open>analyzed_save\<close> is what the store answers to the save of line 251; that save throws
    before it reaches the store when a cast error is recorded on the document.
    \<open>error_save\<close> is the outcome of the save of line 270, whatever makes it throw (the
    store, or a cast error recorded earlier, which stays on the document).
  \<^item> \<open>simplify_reply\<close>: the call of line 299.
  \<^item> \<open>tmp_path\<close>: the name the upload middleware gives the file it stores.
  \<^item> \<open>convert\<close>: what the document library's cast does with a value that is not of the
    type of the path it is assigned to: the value the document then holds, or \<open>None\<close>
    when the cast refuses the value. \<open>valid_key\<close>: whether the library accepts a string
    as a key of a \<^verbatim>\<open>Map\<close> path.
\<close>

record env =
  JWT_SECRET :: "string option"
  hmac :: "string \<Rightarrow> string \<Rightarrow> string"
  bcrypt_hash :: "string \<Rightarrow> string"
  bcrypt_compare :: "string \<Rightarrow> string \<Rightarrow> bool"
  clock :: nat
  tmp_path :: string
  user_query :: "js_error option"
  user_create :: "js_error option"
  document_query :: "js_error option"
  create_save :: "js_error option"
  classify_reply :: "js_error + json"
  analyzed_save :: "js_error option"
  unlink_fault :: "js_error option"
  error_save :: "js_error option"
  cleanup_fault :: "js_error option"
  simplify_reply :: "js_error + json"
  convert :: "schema_type \<Rightarrow> json \<Rightarrow> json option"
  valid_key :: "string \<Rightarrow> bool"

text \<open>
  The file part of an upload request, in the field \<^verbatim>\<open>document\<close>: its file name, its
  content type, its size in bytes.
\<close>

record upload_part =
  part_name :: string
  part_type :: string
  part_size :: nat

text \<open>\<^verbatim>\<open>req.file\<close>\<close>

record req_file =
  originalname :: string
  mimetype :: string
  path :: string
  size :: nat

datatype body =
    Message json
  | LoginBody string string
  | UserBody nat string string string
  | DocumentBody document
  | DocumentsBody "document list"
  | UploadBody string document
  | JsonBody json
  | HealthBody string string nat
  | ErrorPage string

datatype http_response = Resp nat body

text \<open>
  A request ends with a response, or with the handler's promise rejected and no response
  written (an exception thrown inside a \<^verbatim>\<open>catch\<close> block).
\<close>

datatype outcome = Sent http_response | Rejected js_error

section \<open>The auth gate\<close>

text \<open>
  \<^verbatim>\<open>authMiddleware\<close>, the same function in both source files. The token is
  \<^verbatim>\<open>req.headers.authorization?.split(" ")[1]\<close>; the result is the response sent, or the
  value given to \<^verbatim>\<open>req.user\<close> when \<^verbatim>\<open>next()\<close> is called.
\<close>

definition bearer_token :: "string option \<Rightarrow> string option" where
  "bearer_token authorization =
     (case authorization of
        None \<Rightarrow> None
      | Some h \<Rightarrow> js_index (split_on CHR '' '' h) 1)"

definition no_token :: http_response where
  "no_token = Resp 401 (Message (JStr ''No token provided, authorization denied''))"

definition invalid_token :: http_response where
  "invalid_token = Resp 401 (Message (JStr ''Token is not valid''))"

definition authMiddleware :: "env \<Rightarrow> string option \<Rightarrow> http_response + nat" where
  "authMiddleware e authorization =
     (case bearer_token authorization of
        None \<Rightarrow> Inl no_token
      | Some token \<Rightarrow>
          if token = [] then Inl no_token
          else (case jwt_verify (hmac e) token (JWT_SECRET e) (clock e) of
                  Inl err \<Rightarrow> Inl invalid_token
                | Inr decoded \<Rightarrow> Inr (payload_id decoded)))"

section \<open>Signup, login, profile\<close>

text \<open>
  The handlers of \<^verbatim>\<open>/signup\<close>, \<^verbatim>\<open>/login\<close> and \<^verbatim>\<open>/profile\<close>, the same in both
  source files. The body fields of signup and login are taken as strings (a field of
  another JSON type would reach the query casting of the store, which is not modelled).
  \<^verbatim>\<open>User.findOne({ email })\<close> returns the first stored user with that email. The
  password hashing library is a parameter (\<open>bcrypt_hash\<close>, \<open>bcrypt_compare\<close>). A new
  object gets an id that no stored object has.
\<close>

definition fresh_id :: "nat list \<Rightarrow> nat" where
  "fresh_id ids = Suc (fold max ids 0)"

definition findOne_email :: "string \<Rightarrow> user list \<Rightarrow> user option" where
  "findOne_email em us = find (\<lambda>u. email u = em) us"

definition server_error :: "js_error \<Rightarrow> outcome" where
  "server_error err = Sent (Resp 500 (Message (JStr (message err))))"

definition signup :: "env \<Rightarrow> string \<Rightarrow> string \<Rightarrow> string \<Rightarrow> string \<Rightarrow> state \<Rightarrow> outcome \<times> state" where
  "signup e fname lname em pw s =
     (case user_query e of
        Some err \<Rightarrow> (server_error err, s)
      | None \<Rightarrow>
          (case findOne_email em (users s) of
             Some u \<Rightarrow> (Sent (Resp 400 (Message (JStr ''User already exists''))), s)
           | None \<Rightarrow>
               (let hashed = bcrypt_hash e pw in
                case user_create e of
                  Some err \<Rightarrow> (server_error err, s)
                | None \<Rightarrow>
                    (Sent (Resp 201 (Message (JStr ''User registered successfully''))),
                     s\<lparr>users := users s @
                         [\<lparr>user_id = fresh_id (map user_id (users s)), firstName = fname,
                           lastName = lname, email = em, password = hashed\<rparr>]\<rparr>))))"

definition login :: "env \<Rightarrow> string \<Rightarrow> string \<Rightarrow> state \<Rightarrow> outcome \<times> state" where
  "login e em pw s =
     (case user_query e of
        Some err \<Rightarrow> (server_error err, s)
      | None \<Rightarrow>
          (case findOne_email em (users s) of
             None \<Rightarrow> (Sent (Resp 400 (Message (JStr ''Invalid credentials''))), s)
           | Some u \<Rightarrow>
               if \<not> bcrypt_compare e pw (password u)
               then (Sent (Resp 400 (Message (JStr ''Invalid credentials''))), s)
               else (case jwt_sign (hmac e) (user_id u) (JWT_SECRET e) 3600 (clock e) of
                       Inl err \<Rightarrow> (server_error err, s)
                     | Inr token \<Rightarrow> (Sent (Resp 200 (LoginBody ''Login successful'' token)), s))))"

definition profile :: "env \<Rightarrow> nat \<Rightarrow> state \<Rightarrow> outcome \<times> state" where
  "profile e uid s =
     (case user_query e of
        Some err \<Rightarrow> (server_error err, s)
      | None \<Rightarrow>
          (case find (\<lambda>u. user_id u = uid) (users s) of
             None \<Rightarrow> (Sent (Resp 404 (Message (JStr ''User not found''))), s)
           | Some u \<Rightarrow>
               (Sent (Resp 200 (UserBody (user_id u) (firstName u) (lastName u) (email u))), s)))"

section \<open>Reading documents\<close>

text \<open>
  \<^verbatim>\<open>Document.find({ userId: req.user }).sort({ uploadDate: -1 })\<close>; the order of documents
  with the same date is the store's choice.
\<close>

definition list_documents :: "env \<Rightarrow> nat \<Rightarrow> state \<Rightarrow> outcome \<times> state" where
  "list_documents e uid s =
     (case document_query e of
        Some err \<Rightarrow> (server_error err, s)
      | None \<Rightarrow>
          (Sent (Resp 200 (DocumentsBody
             (rev (sort_key uploadDate (filter (\<lambda>d. userId d = uid) (documents s)))))), s))"

text \<open>
  \<^verbatim>\<open>Document.findOne({ _id: req.params.id, userId: req.user })\<close>: the path parameter is
  cast to an object id first, and the query throws when it is not one.
\<close>

definition findOne_document :: "string \<Rightarrow> nat \<Rightarrow> document list \<Rightarrow> js_error + document option" where
  "findOne_document param uid ds =
     (case parse_dec param of
        None \<Rightarrow> Inl (plain_error ''Cast to ObjectId failed'')
      | Some i \<Rightarrow> Inr (find (\<lambda>d. doc_id d = i \<and> userId d = uid) ds))"

definition get_document :: "env \<Rightarrow> nat \<Rightarrow> string \<Rightarrow> state \<Rightarrow> outcome \<times> state" where
  "get_document e uid param s =
     (case document_query e of
        Some err \<Rightarrow> (server_error err, s)
      | None \<Rightarrow>
          (case findOne_document param uid (documents s) of
             Inl err \<Rightarrow> (server_error err, s)
           | Inr None \<Rightarrow> (Sent (Resp 404 (Message (JStr ''Document not found''))), s)
           | Inr (Some d) \<Rightarrow> (Sent (Resp 200 (DocumentBody d)), s)))"

section \<open>The upload middleware\<close>

text \<open>
  \<^verbatim>\<open>multer({ dest, fileFilter, limits })\<close> and \<^verbatim>\<open>upload.single('document')\<close>. The
  filter's callback gets an error for every type but PDF. The library passes that error,
  or its own for a file above \<^verbatim>\<open>limits.fileSize\<close>, to \<^verbatim>\<open>next\<close> and keeps no file;
  with no file part it calls \<^verbatim>\<open>next()\<close> and leaves \<^verbatim>\<open>req.file\<close> undefined; otherwise
  it writes the file under a generated name in the upload directory.
\<close>

definition fileFilter :: "upload_part \<Rightarrow> js_error option" where
  "fileFilter p =
     (if part_type p = ''application/pdf'' then None
      else Some (plain_error ''Only PDF files are allowed''))"

definition fileSize :: nat where
  "fileSize = 10 * 1024 * 1024"

definition upload_single ::
  "env \<Rightarrow> upload_part option \<Rightarrow> state \<Rightarrow> (js_error + req_file option) \<times> state" where
  "upload_single e part s =
     (case part of
        None \<Rightarrow> (Inr None, s)
      | Some p \<Rightarrow>
          (case fileFilter p of
             Some err \<Rightarrow> (Inl err, s)
           | None \<Rightarrow>
               if fileSize < part_size p
               then (Inl \<lparr>message = ''File too large'', code = Some ''LIMIT_FILE_SIZE'',
                          response_data = None\<rparr>, s)
               else (Inr (Some \<lparr>originalname = part_name p, mimetype = part_type p,
                                path = tmp_path e, size = part_size p\<rparr>),
                     s\<lparr>files := insert (tmp_path e) (files s)\<rparr>)))"

text \<open>
  The application installs no error-handling middleware, so an error given to
  \<^verbatim>\<open>next\<close> reaches the framework's default handler. That handler answers with the
  error's \<^verbatim>\<open>status\<close> or \<^verbatim>\<open>statusCode\<close> when it has one, and with 500 otherwise; none
  of the errors above has one.
\<close>

definition default_error_handler :: "js_error \<Rightarrow> http_response" where
  "default_error_handler err = Resp 500 (ErrorPage (message err))"

section \<open>The upload handler\<close>

text \<open>\<^verbatim>\<open>new Document({ userId, fileName, status: 'processing' })\<close> with the schema's defaults.\<close>

definition new_document :: "env \<Rightarrow> nat \<Rightarrow> req_file \<Rightarrow> state \<Rightarrow> document" where
  "new_document e uid f s =
     \<lparr>doc_id = fresh_id (map doc_id (documents s)), userId = uid, fileName = originalname f,
      uploadDate = clock e, status = Processing, classification = JNull, confidence = JNull,
      keyTerms = JArr [], summary = JUndefined, importantDates = JArr [],
      partiesInvolved = JArr [],
      jargonAnalysis = \<lparr>jargonsFound = [], simplifiedText = JUndefined, totalJargons = JNum 0,
                        jargonSummary = JUndefined, complexityAnalysis = JUndefined\<rparr>\<rparr>"

text \<open>
  \<^verbatim>\<open>doc.save()\<close>: an insert for a document not stored yet, an update of the stored one
  otherwise. A save that throws changes nothing.
\<close>

definition put_document :: "document \<Rightarrow> document list \<Rightarrow> document list" where
  "put_document d ds =
     (if doc_id d \<in> set (map doc_id ds)
      then map (\<lambda>x. if doc_id x = doc_id d then d else x) ds
      else ds @ [d])"

definition write_document :: "document \<Rightarrow> state \<Rightarrow> state" where
  "write_document d s =
     s\<lparr>documents := put_document d (documents s), journal := journal s @ [d]\<rparr>"

definition save_document :: "js_error option \<Rightarrow> document \<Rightarrow> state \<Rightarrow> js_error + state" where
  "save_document fault d s =
     (case fault of
        Some err \<Rightarrow> Inl err
      | None \<Rightarrow> Inr (write_document d s))"

text \<open>\<^verbatim>\<open>fs.unlinkSync(p)\<close>: throws when the file is not there, or when the deletion fails.\<close>

definition enoent :: js_error where
  "enoent =
     \<lparr>message = ''ENOENT: no such file or directory'', code = Some ''ENOENT'',
      response_data = None\<rparr>"

definition unlinkSync :: "js_error option \<Rightarrow> string \<Rightarrow> state \<Rightarrow> js_error + state" where
  "unlinkSync fault p s =
     (if p \<notin> files s then Inl enoent
      else (case fault of
              Some err \<Rightarrow> Inl err
            | None \<Rightarrow> Inr (s\<lparr>files := files s - {p}\<rparr>)))"

definition bind_e :: "'e + 'a \<Rightarrow> ('a \<Rightarrow> 'e + 'b) \<Rightarrow> 'e + 'b" where
  "bind_e m f = (case m of Inl err \<Rightarrow> Inl err | Inr x \<Rightarrow> f x)"

text \<open>\<^verbatim>\<open>Object.entries(v)\<close>\<close>

fun object_entries :: "json \<Rightarrow> js_error + (string \<times> json) list" where
  "object_entries JUndefined = Inl type_error"
| "object_entries JNull = Inl type_error"
| "object_entries (JObj kvs) = Inr kvs"
| "object_entries (JArr xs) = Inr (zip (map dec [0..<length xs]) xs)"
| "object_entries (JStr s) = Inr (zip (map dec [0..<length s]) (map (\<lambda>c. JStr [c]) s))"
| "object_entries (JBool b) = Inr []"
| "object_entries (JNum n) = Inr []"

text \<open>\<^verbatim>\<open>map.set(k, v)\<close> on a \<^verbatim>\<open>Map\<close>, which keeps insertion order.\<close>

fun map_set :: "string \<Rightarrow> 'v \<Rightarrow> (string \<times> 'v) list \<Rightarrow> (string \<times> 'v) list" where
  "map_set k v [] = [(k, v)]"
| "map_set k v ((k', v') # m) = (if k' = k then (k, v) # m else (k', v') # map_set k v m)"

text \<open>The body of the loop over the entries of \<^verbatim>\<open>jargons_found\<close> (lines 240 to 244).\<close>

definition convert_info :: "string \<Rightarrow> json \<Rightarrow> js_error + jargon_info" where
  "convert_info jargon info =
     bind_e (get_field info ''meaning'') (\<lambda>m.
     bind_e (get_field info ''occurrences'') (\<lambda>oc.
     bind_e (get_field info ''original_term'') (\<lambda>ot.
       Inr \<lparr>meaning = m, occurrences = oc, originalTerm = js_or ot (JStr jargon)\<rparr>)))"

fun convert_jargons ::
  "(string \<times> json) list \<Rightarrow> (string \<times> jargon_info) list \<Rightarrow> js_error + (string \<times> jargon_info) list" where
  "convert_jargons [] m = Inr m"
| "convert_jargons ((jargon, info) # rest) m =
     (case convert_info jargon info of
        Inl err \<Rightarrow> Inl err
      | Inr i \<Rightarrow> convert_jargons rest (map_set jargon i m))"

definition unknown_complexity :: json where
  "unknown_complexity =
     JObj [(''complexity'', JStr ''Unknown''), (''score'', JNum 0), (''jargonCount'', JNum 0),
           (''totalWords'', JNum 0)]"

text \<open>Lines 224 to 246, for \<open>ja\<close> the reply's \<^verbatim>\<open>jargon_analysis\<close>.\<close>

definition jargon_data :: "json \<Rightarrow> js_error + jargon_analysis" where
  "jargon_data ja =
     bind_e (get_field ja ''simplified_text'') (\<lambda>st.
     bind_e (get_field ja ''total_jargons'') (\<lambda>tj.
     bind_e (get_field ja ''jargon_summary'') (\<lambda>js.
     bind_e (get_field ja ''complexity_analysis'') (\<lambda>ca.
     bind_e (get_field ja ''jargons_found'') (\<lambda>jf.
     bind_e (if truthy jf then bind_e (object_entries jf) (\<lambda>es. convert_jargons es [])
             else Inr []) (\<lambda>found.
       Inr \<lparr>jargonsFound = found, simplifiedText = js_or st (JStr []),
            totalJargons = js_or tj (JNum 0), jargonSummary = js_or js (JStr []),
            complexityAnalysis = js_or ca unknown_complexity\<rparr>))))))"

text \<open>
  The cast of a value assigned to a path of a schema type. A value of the path's type is
  kept as it is: a string for \<^verbatim>\<open>String\<close>, a number for \<^verbatim>\<open>Number\<close>, an array of strings
  for an array of \<^verbatim>\<open>String\<close>, the empty array for \<^verbatim>\<open>importantDates\<close>, an object whose
  properties are \<^verbatim>\<open>complexity\<close> with a string and \<^verbatim>\<open>score\<close>, \<^verbatim>\<open>jargonCount\<close>,
  \<^verbatim>\<open>totalWords\<close> with numbers for \<^verbatim>\<open>complexityAnalysis\<close>. What happens to any other
  value (\<^verbatim>\<open>undefined\<close> and \<^verbatim>\<open>null\<close> included) is the library's \<open>convert\<close>.
\<close>

fun is_string :: "json \<Rightarrow> bool" where
  "is_string (JStr s) = True"
| "is_string v = False"

fun is_number :: "json \<Rightarrow> bool" where
  "is_number (JNum n) = True"
| "is_number v = False"

definition complexity_property :: "string \<times> json \<Rightarrow> bool" where
  "complexity_property kv =
     (if fst kv = ''complexity'' then is_string (snd kv)
      else fst kv \<in> set [''score'', ''jargonCount'', ''totalWords''] \<and> is_number (snd kv))"

fun of_type :: "schema_type \<Rightarrow> json \<Rightarrow> bool" where
  "of_type SString v = is_string v"
| "of_type SNumber v = is_number v"
| "of_type SStrings (JArr xs) = list_all is_string xs"
| "of_type SDates (JArr xs) = (xs = [])"
| "of_type SComplexity (JObj kvs) = (distinct (map fst kvs) \<and> list_all complexity_property kvs)"
| "of_type ty v = False"

definition schema_cast :: "env \<Rightarrow> schema_type \<Rightarrow> json \<Rightarrow> json option" where
  "schema_cast e ty v = (if of_type ty v then Some v else convert e ty v)"

text \<open>
  \<^verbatim>\<open>doc.path = v\<close> on a document: the path takes the cast of \<open>v\<close>; when the cast refuses
  \<open>v\<close> the path keeps the value \<open>old\<close> it had, and a cast error is recorded on the
  document, which makes \<^verbatim>\<open>save()\<close> throw a validation error.
\<close>

definition assigned :: "env \<Rightarrow> schema_type \<Rightarrow> json \<Rightarrow> json \<Rightarrow> json" where
  "assigned e ty v old = (case schema_cast e ty v of Some v' \<Rightarrow> v' | None \<Rightarrow> old)"

definition refused :: "env \<Rightarrow> schema_type \<Rightarrow> json \<Rightarrow> bool" where
  "refused e ty v = (schema_cast e ty v = None)"

definition validation_error :: js_error where
  "validation_error = plain_error ''Document validation failed''"

text \<open>
  Lines 214 to 220: the document after the assignments, and whether one of them recorded
  a cast error.
\<close>

definition assign_results :: "env \<Rightarrow> document \<Rightarrow> json \<Rightarrow> js_error + document \<times> bool" where
  "assign_results e d data =
     bind_e (get_field data ''classification'') (\<lambda>c.
     bind_e (get_field data ''confidence'') (\<lambda>cf.
     bind_e (get_field data ''key_terms'') (\<lambda>kt.
     bind_e (get_field data ''summary'') (\<lambda>sm.
     bind_e (get_field data ''important_dates'') (\<lambda>dates.
     bind_e (get_field data ''parties_involved'') (\<lambda>parties.
       Inr (d\<lparr>status := Analyzed,
               classification := assigned e SString c (classification d),
               confidence := assigned e SNumber cf (confidence d),
               keyTerms := assigned e SStrings kt (keyTerms d),
               summary := assigned e SString sm (summary d),
               importantDates := assigned e SDates dates (importantDates d),
               partiesInvolved := assigned e SStrings parties (partiesInvolved d)\<rparr>,
            refused e SString c \<or> refused e SNumber cf \<or> refused e SStrings kt
            \<or> refused e SString sm \<or> refused e SDates dates
            \<or> refused e SStrings parties)))))))"

text \<open>
  The cast of the \<^verbatim>\<open>Map\<close> assigned to \<^verbatim>\<open>jargonsFound\<close>: every key must be one the
  library accepts, and every value is cast field by field (\<^verbatim>\<open>meaning: String\<close>,
  \<^verbatim>\<open>occurrences: Number\<close>, \<^verbatim>\<open>originalTerm: String\<close>); one refusal refuses the map.
\<close>

definition cast_info :: "env \<Rightarrow> string \<times> jargon_info \<Rightarrow> (string \<times> jargon_info) option" where
  "cast_info e kv =
     (if \<not> valid_key e (fst kv) then None
      else (case schema_cast e SString (meaning (snd kv)) of
              None \<Rightarrow> None
            | Some m \<Rightarrow>
                (case schema_cast e SNumber (occurrences (snd kv)) of
                   None \<Rightarrow> None
                 | Some oc \<Rightarrow>
                     (case schema_cast e SString (originalTerm (snd kv)) of
                        None \<Rightarrow> None
                      | Some ot \<Rightarrow>
                          Some (fst kv, \<lparr>meaning = m, occurrences = oc, originalTerm = ot\<rparr>)))))"

fun cast_jargons ::
  "env \<Rightarrow> (string \<times> jargon_info) list \<Rightarrow> (string \<times> jargon_info) list option" where
  "cast_jargons e [] = Some []"
| "cast_jargons e (kv # m) =
     (case cast_info e kv of
        None \<Rightarrow> None
      | Some kv' \<Rightarrow>
          (case cast_jargons e m of
             None \<Rightarrow> None
           | Some m' \<Rightarrow> Some (kv' # m')))"

text \<open>
  Line 248, \<^verbatim>\<open>tempDocument.jargonAnalysis = jargonAnalysisData\<close>: each of the five paths
  under \<^verbatim>\<open>jargonAnalysis\<close> takes the cast of its value. The result is the document, and
  whether a cast error was recorded.
\<close>

definition assign_jargon :: "env \<Rightarrow> document \<Rightarrow> jargon_analysis \<Rightarrow> document \<times> bool" where
  "assign_jargon e d j =
     (d\<lparr>jargonAnalysis :=
          \<lparr>jargonsFound =
             (case cast_jargons e (jargonsFound j) of
                Some m \<Rightarrow> m
              | None \<Rightarrow> jargonsFound (jargonAnalysis d)),
           simplifiedText =
             assigned e SString (simplifiedText j) (simplifiedText (jargonAnalysis d)),
           totalJargons =
             assigned e SNumber (totalJargons j) (totalJargons (jargonAnalysis d)),
           jargonSummary =
             assigned e SString (jargonSummary j) (jargonSummary (jargonAnalysis d)),
           complexityAnalysis =
             assigned e SComplexity (complexityAnalysis j)
               (complexityAnalysis (jargonAnalysis d))\<rparr>\<rparr>,
      cast_jargons e (jargonsFound j) = None \<or> refused e SString (simplifiedText j)
      \<or> refused e SNumber (totalJargons j) \<or> refused e SString (jargonSummary j)
      \<or> refused e SComplexity (complexityAnalysis j))"

text \<open>
  What lines 212 to 249 and 260 to 262 do to \<^verbatim>\<open>tempDocument\<close> for the reply
  \<^verbatim>\<open>response.data\<close>: the document as it is in memory afterwards, the error thrown on
  the way, if any, and whether a cast error was recorded. The analysis fields are
  assigned before the jargon data is built, so they stay assigned when building it
  throws.
\<close>

definition apply_response ::
  "env \<Rightarrow> document \<Rightarrow> json \<Rightarrow> document \<times> js_error option \<times> bool" where
  "apply_response e d data =
     (case get_field data ''success'' of
        Inl err \<Rightarrow> (d, Some err, False)
      | Inr ok \<Rightarrow>
          if \<not> truthy ok then (d, Some (plain_error ''Model classification failed''), False)
          else (case assign_results e d data of
                  Inl err \<Rightarrow> (d, Some err, False)
                | Inr (d1, r1) \<Rightarrow>
                    (case get_field data ''jargon_analysis'' of
                       Inl err \<Rightarrow> (d1, Some err, r1)
                     | Inr ja \<Rightarrow>
                         if \<not> truthy ja then (d1, None, r1)
                         else (case jargon_data ja of
                                 Inl err \<Rightarrow> (d1, Some err, r1)
                               | Inr j \<Rightarrow>
                                   (fst (assign_jargon e d1 j), None,
                                    r1 \<or> snd (assign_jargon e d1 j))))))"

text \<open>
  The \<^verbatim>\<open>try\<close> block (lines 185 to 262): the response sent or the error thrown, the value
  of \<^verbatim>\<open>tempDocument\<close> when the block is left, and the state.
\<close>

definition upload_try ::
  "env \<Rightarrow> nat \<Rightarrow> req_file option \<Rightarrow> state \<Rightarrow> (js_error + http_response) \<times> document option \<times> state" where
  "upload_try e uid file s =
     (case file of
        None \<Rightarrow> (Inr (Resp 400 (Message (JStr ''No document file uploaded''))), None, s)
      | Some f \<Rightarrow>
          (let d0 = new_document e uid f s in
           case save_document (create_save e) d0 s of
             Inl err \<Rightarrow> (Inl err, Some d0, s)
           | Inr s1 \<Rightarrow>
               (case classify_reply e of
                  Inl err \<Rightarrow> (Inl err, Some d0, s1)
                | Inr data \<Rightarrow>
                    (case apply_response e d0 data of
                       (d1, Some err, invalid) \<Rightarrow> (Inl err, Some d1, s1)
                     | (d1, None, invalid) \<Rightarrow>
                         (case save_document
                                 (if invalid then Some validation_error else analyzed_save e)
                                 d1 s1 of
                            Inl err \<Rightarrow> (Inl err, Some d1, s1)
                          | Inr s2 \<Rightarrow>
                              (case unlinkSync (unlink_fault e) (path f) s2 of
                                 Inl err \<Rightarrow> (Inl err, Some d1, s2)
                               | Inr s3 \<Rightarrow>
                                   (Inr (Resp 200 (UploadBody
                                      ''Document uploaded and analyzed successfully'' d1)),
                                    Some d1, s3)))))))"

text \<open>Lines 279 to 284.\<close>

definition error_message :: "string \<Rightarrow> string \<Rightarrow> js_error \<Rightarrow> json" where
  "error_message generic fallback err =
     (if code err = Some ''ECONNREFUSED''
      then JStr ''Model service is not available. Please try again later.''
      else (case response_data err of
              Some data \<Rightarrow> js_or (get_field_opt data ''error'') (JStr fallback)
            | None \<Rightarrow> JStr generic))"

text \<open>
  The \<^verbatim>\<open>catch\<close> block (lines 264 to 287). An error thrown here is caught by nothing.
\<close>

definition upload_catch ::
  "env \<Rightarrow> req_file option \<Rightarrow> js_error \<Rightarrow> document option \<Rightarrow> state \<Rightarrow> outcome \<times> state" where
  "upload_catch e file err tempDocument s =
     (case (case tempDocument of
              None \<Rightarrow> Inr s
            | Some d \<Rightarrow> save_document (error_save e) (d\<lparr>status := Error\<rparr>) s) of
        Inl err' \<Rightarrow> (Rejected err', s)
      | Inr s1 \<Rightarrow>
          (case (case file of
                   None \<Rightarrow> Inr s1
                 | Some f \<Rightarrow>
                     if path f \<in> files s1 then unlinkSync (cleanup_fault e) (path f) s1
                     else Inr s1) of
             Inl err' \<Rightarrow> (Rejected err', s1)
           | Inr s2 \<Rightarrow> (Sent (Resp 500 (Message
                (error_message ''Document processing failed'' ''Model processing error'' err))), s2)))"

definition upload_handler :: "env \<Rightarrow> nat \<Rightarrow> req_file option \<Rightarrow> state \<Rightarrow> outcome \<times> state" where
  "upload_handler e uid file s =
     (case upload_try e uid file s of
        (Inr r, tempDocument, s1) \<Rightarrow> (Sent r, s1)
      | (Inl err, tempDocument, s1) \<Rightarrow> upload_catch e file err tempDocument s1)"

section \<open>Jargon simplification and health\<close>

text \<open>Lines 293 to 318, for the request body \<open>b\<close>.\<close>

definition simplify_try :: "env \<Rightarrow> json \<Rightarrow> js_error + http_response" where
  "simplify_try e b =
     bind_e (get_field b ''text'') (\<lambda>text.
       if \<not> truthy text then Inr (Resp 400 (Message (JStr ''No text provided'')))
       else
         bind_e (simplify_reply e) (\<lambda>data.
         bind_e (get_field data ''success'') (\<lambda>ok.
           if \<not> truthy ok then Inl (plain_error ''Jargon simplification failed'')
           else
             bind_e (get_field data ''original_text'') (\<lambda>ot.
             bind_e (get_field data ''simplified_text'') (\<lambda>st.
             bind_e (get_field data ''jargons_found'') (\<lambda>jf.
             bind_e (get_field data ''total_jargons'') (\<lambda>tj.
             bind_e (get_field data ''complexity_analysis'') (\<lambda>ca.
             bind_e (get_field data ''jargon_summary'') (\<lambda>js.
               Inr (Resp 200 (JsonBody (JObj
                 [(''success'', JBool True), (''original_text'', ot), (''simplified_text'', st),
                  (''jargons_found'', jf), (''total_jargons'', tj),
                  (''complexity_analysis'', ca), (''jargon_summary'', js)]))))))))))))"

definition simplify_jargons :: "env \<Rightarrow> nat \<Rightarrow> json \<Rightarrow> state \<Rightarrow> outcome \<times> state" where
  "simplify_jargons e uid b s =
     (case simplify_try e b of
        Inr r \<Rightarrow> (Sent r, s)
      | Inl err \<Rightarrow>
          (Sent (Resp 500 (Message
             (error_message ''Jargon simplification failed'' ''Jargon simplification error'' err))),
           s))"

definition health :: "env \<Rightarrow> state \<Rightarrow> outcome \<times> state" where
  "health e s = (Sent (Resp 200 (HealthBody ''healthy'' ''backend-api'' (clock e))), s)"

section \<open>Routes\<close>

text \<open>
  The route table: each route is its chain of middleware and its handler, applied to the
  \<^verbatim>\<open>Authorization\<close> header and to what the route reads from the request.
\<close>

datatype api_request =
    Signup string string string string
  | Login string string
  | Profile
  | ListDocuments
  | GetDocument string
  | Upload "upload_part option"
  | SimplifyJargons json
  | Health

fun protected :: "api_request \<Rightarrow> bool" where
  "protected (Signup fname lname em pw) = False"
| "protected (Login em pw) = False"
| "protected Health = False"
| "protected Profile = True"
| "protected ListDocuments = True"
| "protected (GetDocument param) = True"
| "protected (Upload part) = True"
| "protected (SimplifyJargons b) = True"

definition with_auth ::
  "env \<Rightarrow> string option \<Rightarrow> state \<Rightarrow> (nat \<Rightarrow> outcome \<times> state) \<Rightarrow> outcome \<times> state" where
  "with_auth e authorization s handler =
     (case authMiddleware e authorization of
        Inl r \<Rightarrow> (Sent r, s)
      | Inr uid \<Rightarrow> handler uid)"

fun serve :: "env \<Rightarrow> string option \<Rightarrow> api_request \<Rightarrow> state \<Rightarrow> outcome \<times> state" where
  "serve e a (Signup fname lname em pw) s = signup e fname lname em pw s"
| "serve e a (Login em pw) s = login e em pw s"
| "serve e a Profile s = with_auth e a s (\<lambda>uid. profile e uid s)"
| "serve e a ListDocuments s = with_auth e a s (\<lambda>uid. list_documents e uid s)"
| "serve e a (GetDocument param) s = with_auth e a s (\<lambda>uid. get_document e uid param s)"
| "serve e a (Upload part) s =
     with_auth e a s (\<lambda>uid.
       case upload_single e part s of
         (Inl err, s1) \<Rightarrow> (Sent (default_error_handler err), s1)
       | (Inr file, s1) \<Rightarrow> upload_handler e uid file s1)"
| "serve e a (SimplifyJargons b) s = with_auth e a s (\<lambda>uid. simplify_jargons e uid b s)"
| "serve e a Health s = health e s"

section \<open>Notions the statements below use\<close>

text \<open>The response code of an outcome, when a response was sent.\<close>

fun response_code :: "outcome \<Rightarrow> nat option" where
  "response_code (Sent (Resp c b)) = Some c"
| "response_code (Rejected err) = None"

text \<open>The stored document with a given id, and its status.\<close>

definition stored :: "nat \<Rightarrow> state \<Rightarrow> document option" where
  "stored i s = find (\<lambda>d. doc_id d = i) (documents s)"








section \<open>Concrete inputs\<close>

text \<open>
  A configuration, a store and requests on which the statements below are evaluated. The
  reply is the one of the specification's upload scenario.
\<close>

definition demo_mac :: "string \<Rightarrow> string \<Rightarrow> string" where
  "demo_mac k t = rev (k @ t)"

definition example_reply :: json where
  "example_reply =
     JObj [(''success'', JBool True), (''classification'', JStr ''NDA''),
           (''confidence'', JNum 0.92), (''key_terms'', JArr [JStr ''confidential'']),
           (''jargon_analysis'',
            JObj [(''jargons_found'',
                   JObj [(''indemnify'',
                          JObj [(''meaning'', JStr ''compensate for harm''),
                                (''occurrences'', JNum 2)])])])]"

text \<open>
  The conversion of the configuration below: \<^verbatim>\<open>undefined\<close> and \<^verbatim>\<open>null\<close> are kept, a
  boolean assigned to a \<^verbatim>\<open>String\<close> path becomes its text and a string assigned to an
  array of \<^verbatim>\<open>String\<close> becomes a one-element array, as the library does; this
  configuration refuses every other value that is not of the path's type.
\<close>

fun demo_convert :: "schema_type \<Rightarrow> json \<Rightarrow> json option" where
  "demo_convert ty JUndefined = Some JUndefined"
| "demo_convert ty JNull = Some JNull"
| "demo_convert SString (JBool b) = Some (JStr (if b then ''true'' else ''false''))"
| "demo_convert SStrings (JStr x) = Some (JArr [JStr x])"
| "demo_convert ty v = None"

definition demo_env :: env where
  "demo_env =
     \<lparr>JWT_SECRET = Some ''s3cret'', hmac = demo_mac,
      bcrypt_hash = (\<lambda>p. ''$2a$10$'' @ p), bcrypt_compare = (\<lambda>p h. h = ''$2a$10$'' @ p),
      clock = 1000, tmp_path = ''uploads/3f2a'',
      user_query = None, user_create = None, document_query = None,
      create_save = None, classify_reply = Inr example_reply, analyzed_save = None,
      unlink_fault = None, error_save = None, cleanup_fault = None,
      simplify_reply = Inl (plain_error ''timeout of 15000ms exceeded''),
      convert = demo_convert,
      valid_key = (\<lambda>k. dot \<notin> set k)\<rparr>"

definition demo_token :: string where
  "demo_token = ''7.1000.4600.0064.0001.7terc3s''"

definition demo_users :: "user list" where
  "demo_users =
     [\<lparr>user_id = 7, firstName = ''Ada'', lastName = ''Byron'', email = ''ada@example.org'',
       password = ''$2a$10$pw-ada''\<rparr>,
      \<lparr>user_id = 8, firstName = ''Bob'', lastName = ''Hale'', email = ''bob@example.org'',
       password = ''$2a$10$pw-bob''\<rparr>]"

definition demo_document :: document where
  "demo_document =
     \<lparr>doc_id = 3, userId = 8, fileName = ''lease.pdf'', uploadDate = 900, status = Analyzed,
      classification = JStr ''Lease'', confidence = JNum 0.8, keyTerms = JArr [],
      summary = JStr ''A lease'', importantDates = JArr [], partiesInvolved = JArr [],
      jargonAnalysis = \<lparr>jargonsFound = [], simplifiedText = JUndefined, totalJargons = JNum 0,
                        jargonSummary = JUndefined, complexityAnalysis = JUndefined\<rparr>\<rparr>"

definition demo_state :: state where
  "demo_state =
     \<lparr>users = demo_users, documents = [demo_document], files = {}, journal = []\<rparr>"

definition demo_file :: req_file where
  "demo_file = \<lparr>originalname = ''nda.pdf'', mimetype = ''application/pdf'', path = ''uploads/3f2a'', size = 2048\<rparr>"

definition demo_upload_state :: state where
  "demo_upload_state = demo_state\<lparr>files := {''uploads/3f2a''}\<rparr>"

definition store_down :: js_error where
  "store_down = plain_error ''Operation `documents.insertOne()` buffering timed out''"



definition demo_created :: document where
  "demo_created =
     \<lparr>doc_id = 4, userId = 7, fileName = ''nda.pdf'', uploadDate = 1000, status = Processing,
      classification = JNull, confidence = JNull, keyTerms = JArr [], summary = JUndefined,
      importantDates = JArr [], partiesInvolved = JArr [],
      jargonAnalysis = \<lparr>jargonsFound = [], simplifiedText = JUndefined, totalJargons = JNum 0,
                        jargonSummary = JUndefined, complexityAnalysis = JUndefined\<rparr>\<rparr>"




section \<open>Properties of the string functions\<close>

lemma split_on_not_Nil [simp]: "split_on c s \<noteq> []"
  by (induction s) (auto split: list.splits)



lemma join_Cons: "ws \<noteq> [] \<Longrightarrow> join c ((x # w) # tl ws) = x # join c (w # tl ws)"
  by (cases "tl ws") auto


lemma digit_val_digit_char: "d < 10 \<Longrightarrow> digit_val (digit_char d) = Some d"
  by (simp add: digit_val_def digit_char_def Let_def)


lemma dec_not_Nil [simp]: "dec n \<noteq> []"
  by (subst dec.simps) simp


lemma parse_digits_snoc:
  "parse_digits acc (xs @ [c]) =
     (case parse_digits acc xs of
        None \<Rightarrow> None
      | Some v \<Rightarrow> (case digit_val c of None \<Rightarrow> None | Some d \<Rightarrow> Some (10 * v + d)))"
  by (induction xs arbitrary: acc) (auto split: option.splits)

lemma parse_digits_dec: "parse_digits 0 (dec n) = Some n"
proof (induction n rule: dec.induct)
  case (1 n)
  show ?case
  proof (cases "n < 10")
    case True
    then show ?thesis by (subst dec.simps) (simp add: digit_val_digit_char)
  next
    case False
    with 1 show ?thesis
      by (subst dec.simps) (simp add: parse_digits_snoc digit_val_digit_char)
  qed
qed

lemma parse_dec_dec [simp]: "parse_dec (dec n) = Some n"
  by (simp add: parse_dec_def parse_digits_dec)


section \<open>The auth gate\<close>

lemma demo_token_verifies:
  "jwt_verify demo_mac demo_token (Some ''s3cret'') 1000 = Inr \<lparr>payload_id = 7, iat = 1000, exp = 4600\<rparr>"
  by (simp add: demo_token_def jwt_verify_def dot_def demo_mac_def parse_dec_def digit_val_def Let_def)







lemma with_auth_rejects:
  "authMiddleware e a = Inl r \<Longrightarrow> protected req \<Longrightarrow> serve e a req s = (Sent r, s)"
  by (cases req) (simp_all add: with_auth_def)

lemma authMiddleware_cong:
  "hmac (e'::env) = hmac (e::env) \<Longrightarrow> JWT_SECRET e' = JWT_SECRET e \<Longrightarrow> clock e' = clock e \<Longrightarrow>
   authMiddleware e' a = authMiddleware e a"
  by (simp add: authMiddleware_def split: option.splits)

text \<open>
  C9. A request to a protected route whose token is absent (no header, no second field,
  or an empty one) or fails verification is answered 401, by the no-token or the
  invalid-token response, and the state is returned as it was. The answer is the same
  for every state and for every outcome of the store calls (any \<open>e'\<close> with the token
  configuration of \<open>e\<close>), so no store call has been made.
\<close>

theorem protected_routes_reject_first:
  assumes "protected req"
    and "bearer_token a = None \<or> bearer_token a = Some []
         \<or> (\<exists>t err. bearer_token a = Some t
                \<and> jwt_verify (hmac (e::env)) t (JWT_SECRET e) (clock e) = Inl err)"
    and "hmac e' = hmac e" and "JWT_SECRET e' = JWT_SECRET e" and "clock e' = clock e"
  shows "serve e' a req s =
           (Sent (if bearer_token a = None \<or> bearer_token a = Some [] then no_token
                  else invalid_token), s)
         \<and> response_code (fst (serve e' a req s)) = Some 401"
proof -
  let ?r = "if bearer_token a = None \<or> bearer_token a = Some [] then no_token else invalid_token"
  have "authMiddleware e a = Inl ?r"
  proof (cases "bearer_token a")
    case None
    then show ?thesis by (simp add: authMiddleware_def)
  next
    case (Some t)
    show ?thesis
    proof (cases "t = []")
      case True
      with Some show ?thesis by (simp add: authMiddleware_def)
    next
      case False
      with Some assms(2) obtain err where
        "jwt_verify (hmac e) t (JWT_SECRET e) (clock e) = Inl err"
        by auto
      with Some False show ?thesis by (simp add: authMiddleware_def)
    qed
  qed
  moreover have "authMiddleware e' a = authMiddleware e a"
    using assms(3-5) by (rule authMiddleware_cong)
  ultimately have "authMiddleware e' a = Inl ?r" by simp
  from with_auth_rejects [OF this assms(1)] have "serve e' a req s = (Sent ?r, s)" .
  moreover have "response_code (Sent ?r) = Some 401"
    by (simp add: no_token_def invalid_token_def)
  ultimately show ?thesis by simp
qed

theorem protected_routes_reject_first_witness:
  "serve (demo_env\<lparr>document_query := Some (plain_error ''store down'')\<rparr>)
     (Some ''Bearer 7.1000.4600.forged'') (GetDocument ''3'') demo_state =
     (Sent invalid_token, demo_state)
   \<and> response_code (fst (serve (demo_env\<lparr>document_query := Some (plain_error ''store down'')\<rparr>)
     (Some ''Bearer 7.1000.4600.forged'') (GetDocument ''3'') demo_state)) = Some 401"
proof -
  have bt: "bearer_token (Some ''Bearer 7.1000.4600.forged'') = Some ''7.1000.4600.forged''"
    by (simp add: bearer_token_def js_index_def)
  have bad: "jwt_verify (hmac demo_env) ''7.1000.4600.forged'' (JWT_SECRET demo_env) (clock demo_env)
               = Inl (plain_error ''invalid signature'')"
    by (simp add: demo_env_def jwt_verify_def dot_def demo_mac_def parse_dec_def digit_val_def)
  show ?thesis
    using protected_routes_reject_first [of "GetDocument ''3''" "Some ''Bearer 7.1000.4600.forged''"
        demo_env "demo_env\<lparr>document_query := Some (plain_error ''store down'')\<rparr>" demo_state]
      bt bad
    by (simp add: invalid_token_def)
qed

section \<open>Signup and login\<close>

lemma findOne_email_exists:
  "\<exists>u\<in>set us. email u = em \<Longrightarrow> \<exists>u. findOne_email em us = Some u"
  by (cases "findOne_email em us") (auto simp: findOne_email_def find_None_iff)

text \<open>
  C7. A signup whose email is the email of a stored user leaves the state, and so the
  stored users, unchanged; its answer is 400 ``User already exists'' (500 with the
  store's message when the lookup itself throws).
\<close>

theorem signup_existing_email:
  assumes "\<exists>u\<in>set (users s). email u = em"
  shows "snd (signup e fname lname em pw s) = s
         \<and> fst (signup e fname lname em pw s) =
             (case user_query e of
                None \<Rightarrow> Sent (Resp 400 (Message (JStr ''User already exists'')))
              | Some err \<Rightarrow> Sent (Resp 500 (Message (JStr (message err)))))"
proof -
  from findOne_email_exists [OF assms] obtain u where "findOne_email em (users s) = Some u" ..
  then show ?thesis
    by (simp add: signup_def server_error_def split: option.splits)
qed

theorem signup_existing_email_witness:
  "(\<exists>u\<in>set (users demo_state). email u = ''bob@example.org'')
   \<and> signup demo_env ''Rob'' ''Hale'' ''bob@example.org'' ''hunter2'' demo_state =
       (Sent (Resp 400 (Message (JStr ''User already exists''))), demo_state)"
proof -
  have ex: "\<exists>u\<in>set (users demo_state). email u = ''bob@example.org''"
    by (simp add: demo_state_def demo_users_def)
  have "user_query demo_env = None"
    by (simp add: demo_env_def)
  with signup_existing_email [OF ex, of demo_env "''Rob''" "''Hale''" "''hunter2''"] ex
  show ?thesis
    by (simp add: prod_eq_iff)
qed















section \<open>Reading a document\<close>

lemma find_none_if_all: "(\<forall>x\<in>set xs. \<not> P x) \<Longrightarrow> find P xs = None"
  by (simp add: find_None_iff)

text \<open>
  C4. For a stored document \<open>d\<close> owned by another user than \<open>a\<close>: no request of \<open>a\<close>
  gets \<open>d\<close>, whatever the path parameter; the answer to \<open>a\<close> for the id of \<open>d\<close> is the
  answer for the same id in a store that has no document of that id; and that answer is
  404 ``Document not found'' when the query does not throw.
\<close>

theorem get_document_not_owned:
  assumes "d \<in> set (documents s)" and "doc_id d = i" and "userId d \<noteq> a"
    and "distinct (map doc_id (documents s))"
    and "parse_dec param = Some i"
    and "\<forall>x\<in>set (documents s'). doc_id x \<noteq> i"
  shows "(\<forall>p. fst (get_document e a p s) \<noteq> Sent (Resp 200 (DocumentBody d)))
         \<and> fst (get_document e a param s) = fst (get_document e a param s')
         \<and> (document_query e = None \<longrightarrow>
              fst (get_document e a param s) = Sent (Resp 404 (Message (JStr ''Document not found''))))
         \<and> snd (get_document e a param s) = s"
proof -
  have never: "fst (get_document e a p s) \<noteq> Sent (Resp 200 (DocumentBody d))" for p
  proof
    assume r: "fst (get_document e a p s) = Sent (Resp 200 (DocumentBody d))"
    then obtain j where "find (\<lambda>x. doc_id x = j \<and> userId x = a) (documents s) = Some d"
      by (auto simp: get_document_def findOne_document_def server_error_def
          split: option.splits sum.splits)
    then have "userId d = a"
      by (auto simp: find_Some_iff)
    with assms(3) show False by simp
  qed
  have only: "x = d" if "x \<in> set (documents s)" and "doc_id x = i" for x
    using that assms(1,2,4) by (auto simp: distinct_map inj_on_def)
  then have "\<forall>x\<in>set (documents s). \<not> (doc_id x = i \<and> userId x = a)"
    using assms(3) by auto
  then have here: "find (\<lambda>x. doc_id x = i \<and> userId x = a) (documents s) = None"
    by (rule find_none_if_all)
  have "\<forall>x\<in>set (documents s'). \<not> (doc_id x = i \<and> userId x = a)"
    using assms(6) by auto
  then have there: "find (\<lambda>x. doc_id x = i \<and> userId x = a) (documents s') = None"
    by (rule find_none_if_all)
  have same: "fst (get_document e a param s) = fst (get_document e a param s')"
    by (simp add: get_document_def findOne_document_def assms(5) here there split: option.splits)
  have nf: "document_query e = None \<longrightarrow>
              fst (get_document e a param s) = Sent (Resp 404 (Message (JStr ''Document not found'')))"
    by (simp add: get_document_def findOne_document_def assms(5) here)
  have un: "snd (get_document e a param s) = s"
    by (simp add: get_document_def split: option.splits sum.splits)
  from never same nf un show ?thesis by simp
qed

theorem get_document_not_owned_witness:
  "demo_document \<in> set (documents demo_state) \<and> userId demo_document \<noteq> 7
   \<and> get_document demo_env 7 ''3'' demo_state =
       (Sent (Resp 404 (Message (JStr ''Document not found''))), demo_state)
   \<and> fst (get_document demo_env 7 ''3'' (demo_state\<lparr>documents := []\<rparr>)) =
       Sent (Resp 404 (Message (JStr ''Document not found'')))
   \<and> fst (get_document demo_env 8 ''3'' demo_state) = Sent (Resp 200 (DocumentBody demo_document))"
proof -
  have a1: "demo_document \<in> set (documents demo_state)"
    and a2: "doc_id demo_document = 3" and a3: "userId demo_document \<noteq> 7"
    and a4: "distinct (map doc_id (documents demo_state))"
    and a6: "\<forall>x\<in>set (documents (demo_state\<lparr>documents := []\<rparr>)). doc_id x \<noteq> 3"
    by (simp_all add: demo_state_def demo_document_def)
  have a5: "parse_dec ''3'' = Some 3"
    by (simp add: parse_dec_def digit_val_def)
  have q: "document_query demo_env = None"
    by (simp add: demo_env_def)
  have owner: "fst (get_document demo_env 8 ''3'' demo_state) = Sent (Resp 200 (DocumentBody demo_document))"
    by (simp add: get_document_def findOne_document_def a5 q) (simp add: demo_state_def demo_document_def)
  note T = get_document_not_owned [OF a1 a2 a3 a4 a5 a6, of demo_env]
  from T [THEN conjunct2, THEN conjunct2, THEN conjunct1] q
  have here: "fst (get_document demo_env 7 ''3'' demo_state) =
       Sent (Resp 404 (Message (JStr ''Document not found'')))"
    by simp
  from T [THEN conjunct2, THEN conjunct1] here
  have there: "fst (get_document demo_env 7 ''3'' (demo_state\<lparr>documents := []\<rparr>)) =
       Sent (Resp 404 (Message (JStr ''Document not found'')))"
    by simp
  from T [THEN conjunct2, THEN conjunct2, THEN conjunct2]
  have "snd (get_document demo_env 7 ''3'' demo_state) = demo_state" .
  with here there a1 a3 owner show ?thesis
    by (simp add: prod_eq_iff)
qed

section \<open>The upload route\<close>

lemma fold_max_ge: "a \<le> fold max xs (a::nat)"
  by (induction xs arbitrary: a) (auto intro: order_trans [OF max.cobounded2])

lemma fold_max_mem: "x \<in> set xs \<Longrightarrow> x \<le> fold max xs (a::nat)"
proof (induction xs arbitrary: a)
  case Nil
  then show ?case by simp
next
  case (Cons y ys)
  show ?case
  proof (cases "x = y")
    case True
    have "y \<le> max y a" by simp
    also have "\<dots> \<le> fold max ys (max y a)" by (rule fold_max_ge)
    finally show ?thesis using True by simp
  next
    case False
    with Cons show ?thesis by simp
  qed
qed

lemma fresh_id_notin: "fresh_id ids \<notin> set ids"
proof
  assume "fresh_id ids \<in> set ids"
  then have "fresh_id ids \<le> fold max ids 0" by (rule fold_max_mem)
  then show False by (simp add: fresh_id_def)
qed

text \<open>The id of a new document is not in the store, so its first save is an insert.\<close>

lemma create_is_insert:
  "put_document (new_document e uid f s) (documents s) = documents s @ [new_document e uid f s]"
  using fresh_id_notin [of "map doc_id (documents s)"]
  by (simp add: put_document_def new_document_def)









lemma write_document_simps [simp]:
  "journal (write_document d s) = journal s @ [d]"
  "documents (write_document d s) = put_document d (documents s)"
  "files (write_document d s) = files s"
  "users (write_document d s) = users s"
  by (simp_all add: write_document_def)

lemma upload_try_cases [case_names create classify reply invalid save missing unlink completed]:
  obtains
    err where "create_save e = Some err"
      and "upload_try e uid (Some f) s = (Inl err, Some (new_document e uid f s), s)"
  | err where "create_save e = None" and "classify_reply e = Inl err"
      and "upload_try e uid (Some f) s =
             (Inl err, Some (new_document e uid f s), write_document (new_document e uid f s) s)"
  | data d1 err r where "create_save e = None" and "classify_reply e = Inr data"
      and "apply_response e (new_document e uid f s) data = (d1, Some err, r)"
      and "upload_try e uid (Some f) s =
             (Inl err, Some d1, write_document (new_document e uid f s) s)"
  | data d1 where "create_save e = None" and "classify_reply e = Inr data"
      and "apply_response e (new_document e uid f s) data = (d1, None, True)"
      and "upload_try e uid (Some f) s =
             (Inl validation_error, Some d1, write_document (new_document e uid f s) s)"
  | data d1 err where "create_save e = None" and "classify_reply e = Inr data"
      and "apply_response e (new_document e uid f s) data = (d1, None, False)"
      and "analyzed_save e = Some err"
      and "upload_try e uid (Some f) s =
             (Inl err, Some d1, write_document (new_document e uid f s) s)"
  | data d1 where "create_save e = None" and "classify_reply e = Inr data"
      and "apply_response e (new_document e uid f s) data = (d1, None, False)"
      and "analyzed_save e = None" and "path f \<notin> files s"
      and "upload_try e uid (Some f) s =
             (Inl enoent, Some d1,
              write_document d1 (write_document (new_document e uid f s) s))"
  | data d1 err where "create_save e = None" and "classify_reply e = Inr data"
      and "apply_response e (new_document e uid f s) data = (d1, None, False)"
      and "analyzed_save e = None" and "path f \<in> files s" and "unlink_fault e = Some err"
      and "upload_try e uid (Some f) s =
             (Inl err, Some d1,
              write_document d1 (write_document (new_document e uid f s) s))"
  | data d1 where "create_save e = None" and "classify_reply e = Inr data"
      and "apply_response e (new_document e uid f s) data = (d1, None, False)"
      and "analyzed_save e = None" and "path f \<in> files s" and "unlink_fault e = None"
      and "upload_try e uid (Some f) s =
             (Inr (Resp 200 (UploadBody ''Document uploaded and analyzed successfully'' d1)),
              Some d1,
              (write_document d1 (write_document (new_document e uid f s) s))
                \<lparr>files := files s - {path f}\<rparr>)"
proof (cases "create_save e")
  case (Some err)
  then have "upload_try e uid (Some f) s = (Inl err, Some (new_document e uid f s), s)"
    by (simp add: upload_try_def save_document_def Let_def)
  with Some show ?thesis by (rule that(1))
next
  case None
  note c = None
  show ?thesis
  proof (cases "classify_reply e")
    case (Inl err)
    with c have "upload_try e uid (Some f) s =
             (Inl err, Some (new_document e uid f s), write_document (new_document e uid f s) s)"
      by (simp add: upload_try_def save_document_def Let_def)
    with c Inl show ?thesis by (rule that(2))
  next
    case (Inr data)
    obtain d1 t r where a: "apply_response e (new_document e uid f s) data = (d1, t, r)"
      by (cases "apply_response e (new_document e uid f s) data")
    show ?thesis
    proof (cases t)
      case (Some err)
      with c Inr a have "upload_try e uid (Some f) s =
             (Inl err, Some d1, write_document (new_document e uid f s) s)"
        by (simp add: upload_try_def save_document_def Let_def)
      with c Inr a Some show ?thesis by (intro that(3)) auto
    next
      case None
      note t = None
      show ?thesis
      proof (cases r)
        case True
        with c Inr a t have "upload_try e uid (Some f) s =
             (Inl validation_error, Some d1, write_document (new_document e uid f s) s)"
          by (simp add: upload_try_def save_document_def Let_def)
        with c Inr a t True show ?thesis by (intro that(4)) auto
      next
        case False
        note r = False
        show ?thesis
        proof (cases "analyzed_save e")
          case (Some err)
          with c Inr a t r have "upload_try e uid (Some f) s =
             (Inl err, Some d1, write_document (new_document e uid f s) s)"
            by (simp add: upload_try_def save_document_def Let_def)
          with c Inr a t r Some show ?thesis by (intro that(5)) auto
        next
          case None
          note sv = None
          show ?thesis
          proof (cases "path f \<in> files s")
            case False
            with c Inr a t r sv have "upload_try e uid (Some f) s =
             (Inl enoent, Some d1,
              write_document d1 (write_document (new_document e uid f s) s))"
              by (simp add: upload_try_def save_document_def unlinkSync_def Let_def)
            with c Inr a t r sv False show ?thesis by (intro that(6)) auto
          next
            case True
            show ?thesis
            proof (cases "unlink_fault e")
              case (Some err)
              with c Inr a t r sv True have "upload_try e uid (Some f) s =
             (Inl err, Some d1,
              write_document d1 (write_document (new_document e uid f s) s))"
                by (simp add: upload_try_def save_document_def unlinkSync_def Let_def)
              with c Inr a t r sv True Some show ?thesis by (intro that(7)) auto
            next
              case None
              with c Inr a t r sv True have "upload_try e uid (Some f) s =
             (Inr (Resp 200 (UploadBody ''Document uploaded and analyzed successfully'' d1)),
              Some d1,
              (write_document d1 (write_document (new_document e uid f s) s))
                \<lparr>files := files s - {path f}\<rparr>)"
                by (simp add: upload_try_def save_document_def unlinkSync_def Let_def)
              with c Inr a t r sv True None show ?thesis by (intro that(8)) auto
            qed
          qed
        qed
      qed
    qed
  qed
qed

lemma upload_catch_cases [case_names save absent cleanup completed]:
  obtains
    err' where "error_save e = Some err'"
      and "upload_catch e (Some f) err (Some d) s = (Rejected err', s)"
  | "error_save e = None" and "path f \<notin> files s"
      and "upload_catch e (Some f) err (Some d) s =
             (Sent (Resp 500 (Message
                (error_message ''Document processing failed'' ''Model processing error'' err))),
              write_document (d\<lparr>status := Error\<rparr>) s)"
  | err' where "error_save e = None" and "path f \<in> files s" and "cleanup_fault e = Some err'"
      and "upload_catch e (Some f) err (Some d) s =
             (Rejected err', write_document (d\<lparr>status := Error\<rparr>) s)"
  | "error_save e = None" and "path f \<in> files s" and "cleanup_fault e = None"
      and "upload_catch e (Some f) err (Some d) s =
             (Sent (Resp 500 (Message
                (error_message ''Document processing failed'' ''Model processing error'' err))),
              (write_document (d\<lparr>status := Error\<rparr>) s)\<lparr>files := files s - {path f}\<rparr>)"
proof (cases "error_save e")
  case (Some err')
  then have "upload_catch e (Some f) err (Some d) s = (Rejected err', s)"
    by (simp add: upload_catch_def save_document_def)
  with Some show ?thesis by (rule that(1))
next
  case None
  note sv = None
  show ?thesis
  proof (cases "path f \<in> files s")
    case False
    with sv have "upload_catch e (Some f) err (Some d) s =
             (Sent (Resp 500 (Message
                (error_message ''Document processing failed'' ''Model processing error'' err))),
              write_document (d\<lparr>status := Error\<rparr>) s)"
      by (simp add: upload_catch_def save_document_def)
    with sv False show ?thesis by (rule that(2))
  next
    case True
    show ?thesis
    proof (cases "cleanup_fault e")
      case (Some err')
      with sv True have "upload_catch e (Some f) err (Some d) s =
             (Rejected err', write_document (d\<lparr>status := Error\<rparr>) s)"
        by (simp add: upload_catch_def save_document_def unlinkSync_def)
      with sv True Some show ?thesis by (rule that(3))
    next
      case None
      with sv True have "upload_catch e (Some f) err (Some d) s =
             (Sent (Resp 500 (Message
                (error_message ''Document processing failed'' ''Model processing error'' err))),
              (write_document (d\<lparr>status := Error\<rparr>) s)\<lparr>files := files s - {path f}\<rparr>)"
        by (simp add: upload_catch_def save_document_def unlinkSync_def)
      with sv True None show ?thesis by (rule that(4))
    qed
  qed
qed



lemma stored_files_update [simp]: "stored i (s\<lparr>files := fs\<rparr>) = stored i s"
  by (simp add: stored_def)



lemma upload_handler_catch:
  "upload_try e uid file s = (Inl err, td, s1) \<Longrightarrow>
   upload_handler e uid file s = upload_catch e file err td s1"
  by (simp add: upload_handler_def)

lemma upload_handler_sent:
  "upload_try e uid file s = (Inr r, td, s1) \<Longrightarrow> upload_handler e uid file s = (Sent r, s1)"
  by (simp add: upload_handler_def)


text \<open>
  When the save in the \<^verbatim>\<open>catch\<close> block and the file deletions do not throw, the
  temporary file is gone after the handler, on the success path and on every failure
  path.
\<close>

lemma upload_removes_file:
  assumes "error_save e = None" and "unlink_fault e = None" and "cleanup_fault e = None"
  shows "path f \<notin> files (snd (upload_handler e uid (Some f) s))"
proof -
  have caught: "path f \<notin> files (snd (upload_catch e (Some f) err (Some d) s1))" for err d s1
    by (cases rule: upload_catch_cases [where e=e and f=f and s=s1 and err=err and d=d])
      (use assms in simp_all)
  show ?thesis
  proof (cases rule: upload_try_cases [where e=e and uid=uid and f=f and s=s])
    case (create err)
    with caught upload_handler_catch [OF create(2)] show ?thesis by simp
  next
    case (classify err)
    with caught upload_handler_catch [OF classify(3)] show ?thesis by simp
  next
    case (reply data d1 err r)
    with caught upload_handler_catch [OF reply(4)] show ?thesis by simp
  next
    case (invalid data d1)
    with caught upload_handler_catch [OF invalid(4)] show ?thesis by simp
  next
    case (save data d1 err)
    with caught upload_handler_catch [OF save(5)] show ?thesis by simp
  next
    case (missing data d1)
    with caught upload_handler_catch [OF missing(6)] show ?thesis by simp
  next
    case (unlink data d1 err)
    with assms(2) show ?thesis by simp
  next
    case (completed data d1)
    with upload_handler_sent [OF completed(7)] show ?thesis by simp
  qed
qed






lemma demo_auth: "authMiddleware demo_env (Some (''Bearer '' @ demo_token)) = Inr 7"
  using demo_token_verifies
  by (simp add: authMiddleware_def bearer_token_def js_index_def demo_token_def demo_env_def)

text \<open>
  C5 (amended). An authenticated upload request with no file is answered 400 by the
  handler. One whose file is not a PDF, or is a PDF above 10 MB, never reaches the
  handler: the upload middleware passes an error on, and the framework's default error
  handler answers 500. In all three cases the state is returned as it was, so no
  document record is created.
\<close>

theorem upload_rejections:
  assumes "authMiddleware e a = Inr uid"
  shows "serve e a (Upload None) s =
           (Sent (Resp 400 (Message (JStr ''No document file uploaded''))), s)
         \<and> (part_type p \<noteq> ''application/pdf'' \<longrightarrow>
              serve e a (Upload (Some p)) s =
                (Sent (Resp 500 (ErrorPage ''Only PDF files are allowed'')), s))
         \<and> (part_type p = ''application/pdf'' \<and> fileSize < part_size p \<longrightarrow>
              serve e a (Upload (Some p)) s = (Sent (Resp 500 (ErrorPage ''File too large'')), s))"
  using assms
  by (simp add: with_auth_def upload_single_def fileFilter_def default_error_handler_def
      upload_handler_def upload_try_def plain_error_def)

theorem upload_rejections_witness:
  "authMiddleware demo_env (Some (''Bearer '' @ demo_token)) = Inr 7
   \<and> serve demo_env (Some (''Bearer '' @ demo_token)) (Upload None) demo_state =
       (Sent (Resp 400 (Message (JStr ''No document file uploaded''))), demo_state)
   \<and> serve demo_env (Some (''Bearer '' @ demo_token))
        (Upload (Some \<lparr>part_name = ''notes.txt'', part_type = ''text/plain'', part_size = 12\<rparr>))
        demo_state =
       (Sent (Resp 500 (ErrorPage ''Only PDF files are allowed'')), demo_state)
   \<and> serve demo_env (Some (''Bearer '' @ demo_token))
        (Upload (Some \<lparr>part_name = ''big.pdf'', part_type = ''application/pdf'',
                       part_size = 10485761\<rparr>))
        demo_state =
       (Sent (Resp 500 (ErrorPage ''File too large'')), demo_state)"
  using upload_rejections [OF demo_auth, of demo_state
      "\<lparr>part_name = ''notes.txt'', part_type = ''text/plain'', part_size = 12\<rparr>"]
    upload_rejections [OF demo_auth, of demo_state
      "\<lparr>part_name = ''big.pdf'', part_type = ''application/pdf'', part_size = 10485761\<rparr>"]
    demo_auth
  by (simp add: fileSize_def)

text \<open>
  C5 as stated fails on the response code: the upload of a text file by an authenticated
  user is answered 500, not 400.
\<close>

theorem upload_non_pdf_counterexample:
  "response_code (fst (serve demo_env (Some (''Bearer '' @ demo_token))
        (Upload (Some \<lparr>part_name = ''notes.txt'', part_type = ''text/plain'', part_size = 12\<rparr>))
        demo_state)) = Some 500"
  using demo_auth
  by (simp add: with_auth_def upload_single_def fileFilter_def default_error_handler_def)

text \<open>
  C2. With the document store unreachable, both the save of the new record and the save
  in the \<^verbatim>\<open>catch\<close> block throw. The second one is not caught: the handler's promise
  rejects before the cleanup of lines 273 to 276 is reached, and the temporary file is
  still there.
\<close>

theorem upload_store_down_leaves_file:
  "path demo_file \<in> files demo_upload_state
   \<and> upload_handler (demo_env\<lparr>create_save := Some store_down, error_save := Some store_down\<rparr>)
        7 (Some demo_file) demo_upload_state = (Rejected store_down, demo_upload_state)
   \<and> path demo_file \<in> files (snd (upload_handler
        (demo_env\<lparr>create_save := Some store_down, error_save := Some store_down\<rparr>)
        7 (Some demo_file) demo_upload_state))"
  by (simp add: upload_handler_def upload_try_def upload_catch_def save_document_def write_document_def demo_env_def
      demo_file_def demo_upload_state_def demo_state_def)







section \<open>The mapping of the classification reply\<close>

















text \<open>
  A value that is not of the path's type is stored as converted: with the conversion of
  \<open>demo_env\<close>, \<^verbatim>\<open>classification: true\<close> is stored as the string \<^verbatim>\<open>"true"\<close> and
  \<^verbatim>\<open>key_terms: "solo"\<close> as the array \<^verbatim>\<open>["solo"]\<close>, and no cast error is recorded.
\<close>

lemma assign_results_converts:
  "assign_results demo_env demo_created
     (JObj [(''success'', JBool True), (''classification'', JBool True),
            (''key_terms'', JStr ''solo'')]) =
   Inr (demo_created\<lparr>status := Analyzed, classification := JStr ''true'',
          confidence := JUndefined, keyTerms := JArr [JStr ''solo''], summary := JUndefined,
          importantDates := JUndefined, partiesInvolved := JUndefined\<rparr>, False)"
  by (simp add: assign_results_def bind_e_def assigned_def refused_def schema_cast_def
      demo_env_def)




end
